theory Spec2Isabelle
  imports
    Main
    "HOL-Library.Word"
    "HOL-Library.Char_ord"
    "HOL-Library.List_Lexorder"
    "HOL-Library.AList"
begin

unbundle bit_operations_syntax

section \<open>The MCP session manager of adk-go: header-keyed session pooling\<close>

text \<open>
  The development embeds \<^verbatim>\<open>tool/mcptoolset/session_manager.go\<close>. The repository holds two
  revisions of that file: the exported \<^verbatim>\<open>SessionManager\<close> and the internal
  \<^verbatim>\<open>sessionManager\<close>. They differ in \<^verbatim>\<open>generateSessionKey\<close> (the internal one first asks
  \<^verbatim>\<open>headersAffectSession\<close>) and in \<^verbatim>\<open>headerTransport.RoundTrip\<close> (the exported one carries
  a guard around closing the request body). Both are embedded where they differ.
\<close>

subsection \<open>Go values\<close>

text \<open>
  A Go \<^verbatim>\<open>string\<close> is a sequence of bytes, here a \<open>string\<close> (a list of 8-bit characters).
  \<^verbatim>\<open>sort.Strings\<close> orders strings byte-wise and lexicographically, which is the order of
  \<open>char list\<close> under the two library instances imported above.

  A \<^verbatim>\<open>map[string]string\<close> is an association list in which every name occurs once
  (\<open>distinct (map fst h)\<close>). The order of the list stands for the order in which
  \<^verbatim>\<open>range\<close> happens to visit the map, which Go leaves unspecified; \<^verbatim>\<open>nil\<close> and the
  empty map are both \<open>[]\<close> (\<^verbatim>\<open>len\<close> is 0 for both and \<^verbatim>\<open>range\<close> visits nothing).
\<close>

type_synonym byte = "8 word"

type_synonym headers = "(string \<times> string) list"

definition well_formed :: "headers \<Rightarrow> bool" where
  "well_formed h = distinct (map fst h)"

text \<open>\<^verbatim>\<open>headers[k]\<close>: the value stored under \<open>k\<close>, the zero value \<^verbatim>\<open>""\<close> when absent.\<close>

definition index :: "headers \<Rightarrow> string \<Rightarrow> string" where
  "index h k = (case map_of h k of None \<Rightarrow> [] | Some v \<Rightarrow> v)"

text \<open>\<^verbatim>\<open>strings.Join(elems, sep)\<close>.\<close>

fun Join :: "string list \<Rightarrow> string \<Rightarrow> string" where
  "Join [] sep = []"
| "Join [x] sep = x"
| "Join (x # y # ys) sep = x @ sep @ Join (y # ys) sep"

subsection \<open>\<^verbatim>\<open>crypto/md5\<close> and \<^verbatim>\<open>encoding/hex\<close>\<close>

text \<open>
  \<^verbatim>\<open>md5.Sum\<close> is the MD5 digest of RFC 1321 and returns a \<^verbatim>\<open>[16]byte\<close>. It is written out
  here after the RFC so that keys can be computed: four 32-bit state words, 64-byte
  blocks of sixteen little-endian words, 64 operations per block.
\<close>

definition md5_shift :: "nat list" where
  "md5_shift =
    [7, 12, 17, 22, 7, 12, 17, 22, 7, 12, 17, 22, 7, 12, 17, 22,
     5, 9, 14, 20, 5, 9, 14, 20, 5, 9, 14, 20, 5, 9, 14, 20,
     4, 11, 16, 23, 4, 11, 16, 23, 4, 11, 16, 23, 4, 11, 16, 23,
     6, 10, 15, 21, 6, 10, 15, 21, 6, 10, 15, 21, 6, 10, 15, 21]"

definition md5_K :: "32 word list" where
  "md5_K =
    [0xd76aa478, 0xe8c7b756, 0x242070db, 0xc1bdceee, 0xf57c0faf, 0x4787c62a, 0xa8304613,
     0xfd469501, 0x698098d8, 0x8b44f7af, 0xffff5bb1, 0x895cd7be, 0x6b901122, 0xfd987193,
     0xa679438e, 0x49b40821, 0xf61e2562, 0xc040b340, 0x265e5a51, 0xe9b6c7aa, 0xd62f105d,
     0x02441453, 0xd8a1e681, 0xe7d3fbc8, 0x21e1cde6, 0xc33707d6, 0xf4d50d87, 0x455a14ed,
     0xa9e3e905, 0xfcefa3f8, 0x676f02d9, 0x8d2a4c8a, 0xfffa3942, 0x8771f681, 0x6d9d6122,
     0xfde5380c, 0xa4beea44, 0x4bdecfa9, 0xf6bb4b60, 0xbebfbc70, 0x289b7ec6, 0xeaa127fa,
     0xd4ef3085, 0x04881d05, 0xd9d4d039, 0xe6db99e5, 0x1fa27cf8, 0xc4ac5665, 0xf4292244,
     0x432aff97, 0xab9423a7, 0xfc93a039, 0x655b59c3, 0x8f0ccc92, 0xffeff47d, 0x85845dd1,
     0x6fa87e4f, 0xfe2ce6e0, 0xa3014314, 0x4e0811a1, 0xf7537e82, 0xbd3af235, 0x2ad7d2bb,
     0xeb86d391]"

type_synonym md5_state = "32 word \<times> 32 word \<times> 32 word \<times> 32 word"

definition md5_init :: md5_state where
  "md5_init = (0x67452301, 0xefcdab89, 0x98badcfe, 0x10325476)"

text \<open>Little-endian reading and writing of words.\<close>

definition le_word :: "byte list \<Rightarrow> 32 word" where
  "le_word bs = foldr (\<lambda>b w. ucast b OR push_bit 8 w) bs 0"

definition word_bytes :: "32 word \<Rightarrow> byte list" where
  "word_bytes w = [ucast w, ucast (drop_bit 8 w), ucast (drop_bit 16 w), ucast (drop_bit 24 w)]"

definition length_bytes :: "nat \<Rightarrow> byte list" where
  "length_bytes n =
     (let bits = (of_nat (8 * n) :: 64 word)
      in map (\<lambda>i. ucast (drop_bit (8 * i) bits)) [0, 1, 2, 3, 4, 5, 6, 7])"

definition md5_pad :: "byte list \<Rightarrow> byte list" where
  "md5_pad m =
     m @ [0x80] @ replicate ((119 - length m mod 64) mod 64) 0 @ length_bytes (length m)"

definition chunks :: "nat \<Rightarrow> 'a list \<Rightarrow> 'a list list" where
  "chunks n xs = map (\<lambda>i. take n (drop (n * i) xs)) [0 ..< length xs div n]"

fun md5_op :: "32 word list \<Rightarrow> nat \<Rightarrow> md5_state \<Rightarrow> md5_state" where
  "md5_op M i (a, b, c, d) =
     (let (f, g) =
            (if i < 16 then ((b AND c) OR (NOT b AND d), i)
             else if i < 32 then ((d AND b) OR (NOT d AND c), (5 * i + 1) mod 16)
             else if i < 48 then (b XOR c XOR d, (3 * i + 5) mod 16)
             else (c XOR (b OR NOT d), (7 * i) mod 16));
          t = f + a + md5_K ! i + M ! g
      in (d, b + word_rotl (md5_shift ! i) t, b, c))"

fun md5_block :: "byte list \<Rightarrow> md5_state \<Rightarrow> md5_state" where
  "md5_block blk (a0, b0, c0, d0) =
     (case fold (md5_op (map le_word (chunks 4 blk))) [0 ..< 64] (a0, b0, c0, d0) of
        (a, b, c, d) \<Rightarrow> (a0 + a, b0 + b, c0 + c, d0 + d))"

definition md5_Sum :: "string \<Rightarrow> byte list" where
  "md5_Sum s =
     (case fold md5_block (chunks 64 (md5_pad (map of_char s))) md5_init of
        (a, b, c, d) \<Rightarrow> word_bytes a @ word_bytes b @ word_bytes c @ word_bytes d)"

text \<open>\<^verbatim>\<open>hex.EncodeToString\<close>: two characters of \<^verbatim>\<open>hextable\<close> per byte, high nibble first.\<close>

definition hextable :: string where
  "hextable = ''0123456789abcdef''"

definition hex_EncodeToString :: "byte list \<Rightarrow> string" where
  "hex_EncodeToString src =
     concat (map (\<lambda>v. [hextable ! unat (drop_bit 4 v), hextable ! unat (v AND 0x0f)]) src)"

subsection \<open>Transports\<close>

text \<open>
  \<^verbatim>\<open>mcp.Transport\<close> is an interface of the MCP SDK. The session manager switches on its
  dynamic type: the two HTTP client transports, of which it reads \<^verbatim>\<open>Endpoint\<close> and
  \<^verbatim>\<open>HTTPClient\<close>, and everything else (standard streams, in-memory, ...), kept opaque
  under an identifier.

  Of \<^verbatim>\<open>http.Client\<close> the four fields are kept. A \<^verbatim>\<open>RoundTripper\<close> is either one of the
  program's own \<^verbatim>\<open>headerTransport\<close>s or a foreign one under an identifier; \<open>None\<close> is the
  \<^verbatim>\<open>nil\<close> interface value or pointer. Redirect policies and cookie jars are opaque.
\<close>

datatype RoundTripper =
  ForeignRoundTripper nat
| HeaderTransport (Base: "RoundTripper option") (Headers: headers)

record Client =
  Transport :: "RoundTripper option"
  CheckRedirect :: "nat option"
  Jar :: "nat option"
  Timeout :: int

datatype Transport =
  SSEClientTransport (Endpoint: string) (HTTPClient: "Client option")
| StreamableClientTransport (Endpoint: string) (HTTPClient: "Client option")
| OtherTransport nat

subsection \<open>Key derivation\<close>

text \<open>
  \<^verbatim>\<open>fmt.Sprintf("%q", s)\<close> is \<^verbatim>\<open>strconv.Quote\<close>, whose output depends on the Unicode tables
  of the Go runtime. The key functions take it as the parameter \<open>q\<close>, so every statement
  below holds whatever the quoting does.

  \<^verbatim>\<open>SessionManager.generateSessionKey\<close> (exported revision):
\<close>

definition SessionManager_generateSessionKey :: "(string \<Rightarrow> string) \<Rightarrow> headers \<Rightarrow> string" where
  "SessionManager_generateSessionKey q headers =
     (if length headers = 0 then ''default''
      else
        let keys = sort (map fst headers);
            pairs = map (\<lambda>k. q k @ '':'' @ q (index headers k)) keys;
            jsonStr = ''{'' @ Join pairs '','' @ ''}'';
            h = md5_Sum jsonStr
        in hex_EncodeToString h)"

text \<open>\<^verbatim>\<open>sessionManager.headersAffectSession\<close> and \<^verbatim>\<open>sessionManager.generateSessionKey\<close>
  (internal revision):\<close>

fun headersAffectSession :: "Transport \<Rightarrow> bool" where
  "headersAffectSession (SSEClientTransport _ _) = True"
| "headersAffectSession (StreamableClientTransport _ _) = True"
| "headersAffectSession (OtherTransport _) = False"

definition sessionManager_generateSessionKey ::
  "(string \<Rightarrow> string) \<Rightarrow> Transport \<Rightarrow> headers \<Rightarrow> string" where
  "sessionManager_generateSessionKey q transport headers =
     (if \<not> headersAffectSession transport then ''default''
      else if length headers = 0 then ''default''
      else
        let keys = sort (map fst headers);
            pairs = map (\<lambda>k. q k @ '':'' @ q (index headers k)) keys;
            jsonStr = ''{'' @ Join pairs '','' @ ''}'';
            h = md5_Sum jsonStr
        in hex_EncodeToString h)"

text \<open>
  For concrete keys: what \<^verbatim>\<open>%q\<close> prints for a string of printable ASCII characters, which
  is the string between double quotes with \<^verbatim>\<open>"\<close> and \<^verbatim>\<open>\\<close> escaped by a backslash.
\<close>

definition quote_printable :: "string \<Rightarrow> string" where
  "quote_printable s =
     [CHR 0x22] @ concat (map (\<lambda>c. if c = CHR 0x22 \<or> c = CHR 0x5C then [CHR 0x5C, c] else [c]) s)
       @ [CHR 0x22]"

subsection \<open>The key derivation in the words of the specification\<close>

text \<open>
  The reference the code is compared with, written after the specification and not after
  the code: an empty header set gives \<^verbatim>\<open>"default"\<close>; otherwise the header entries are
  ordered by name, each is rendered as a quoted \<^verbatim>\<open>"name":"value"\<close> pair, the pairs are
  joined by commas inside braces, and the hash of that string is rendered with two
  hexadecimal digits per byte.
\<close>

definition hex_digit :: "nat \<Rightarrow> char" where
  "hex_digit d = (if d < 10 then char_of (48 + d) else char_of (87 + d))"

definition hex_fixed_width :: "byte list \<Rightarrow> string" where
  "hex_fixed_width bs = concat (map (\<lambda>b. [hex_digit (unat b div 16), hex_digit (unat b mod 16)]) bs)"

definition in_braces :: "string list \<Rightarrow> string" where
  "in_braces ps =
     ''{'' @ (case ps of [] \<Rightarrow> [] | p # rest \<Rightarrow> p @ concat (map (\<lambda>x. '','' @ x) rest)) @ ''}''"

definition Key_reference :: "(string \<Rightarrow> string) \<Rightarrow> headers \<Rightarrow> string" where
  "Key_reference q h =
     (if h = [] then ''default''
      else
        let ordered = sort_key fst h;
            pairs = map (\<lambda>(name, val). q name @ '':'' @ q val) ordered
        in hex_fixed_width (md5_Sum (in_braces pairs)))"


subsection \<open>Contexts, errors and the SDK's client\<close>

text \<open>
  Of a \<^verbatim>\<open>context.Context\<close> the session manager asks only whether it has a deadline, and
  it derives one context with \<^verbatim>\<open>context.WithTimeout\<close>. Contexts are kept symbolic; a
  duration counts nanoseconds, as \<^verbatim>\<open>time.Duration\<close> does.
\<close>

datatype Context =
  Background
| WithCancel Context
| WithDeadline int Context
| WithTimeout Context int

fun hasDeadline :: "Context \<Rightarrow> bool" where
  "hasDeadline Background = False"
| "hasDeadline (WithCancel parent) = hasDeadline parent"
| "hasDeadline (WithDeadline d parent) = True"
| "hasDeadline (WithTimeout parent d) = True"

definition Second :: int where
  "Second = 1000000000"

text \<open>
  Errors: those of the SDK are opaque; \<^verbatim>\<open>fmt.Errorf\<close> with \<^verbatim>\<open>%w\<close> wraps its argument
  (\<^verbatim>\<open>errors.Unwrap\<close> gives it back), with \<^verbatim>\<open>%v\<close> it only prints the arguments.
\<close>

datatype error =
  SDKError string
| Errorf_w string error
| Errorf_v string "error list"


text \<open>
  A \<open>session\<close> is the identity of a \<^verbatim>\<open>*mcp.ClientSession\<close> that is not \<^verbatim>\<open>nil\<close>.
  \<^verbatim>\<open>Client.Connect\<close>, \<^verbatim>\<open>ClientSession.Ping\<close> and \<^verbatim>\<open>ClientSession.Close\<close> belong to the
  SDK and act on the network: they are parameters, functions of a state \<open>'w\<close> of the
  world outside the program, which they may change. \<^verbatim>\<open>Connect\<close> returns an error or a
  session (never \<^verbatim>\<open>nil, nil\<close>). Every call the program makes is also written to a log,
  so that statements can say which calls happened.
\<close>

type_synonym session = nat

record 'w env =
  client_Connect :: "Context \<Rightarrow> Transport \<Rightarrow> 'w \<Rightarrow> (error + session) \<times> 'w"
  session_Ping :: "Context \<Rightarrow> session \<Rightarrow> 'w \<Rightarrow> error option \<times> 'w"
  session_Close :: "session \<Rightarrow> 'w \<Rightarrow> error option \<times> 'w"

datatype call =
  ConnectCall Context Transport "error + session"
| PingCall Context session "error option"
| CloseCall session "error option"

subsection \<open>The session manager\<close>

text \<open>
  \<^verbatim>\<open>sessionEntry\<close> and \<^verbatim>\<open>SessionManager\<close>. The only statement that stores an entry stores
  the session \<^verbatim>\<open>Connect\<close> returned without error, so the \<^verbatim>\<open>session\<close> field is never
  \<^verbatim>\<open>nil\<close>. The fields carry a prefix here (\<open>entry_session\<close>, \<open>sm_transport\<close>, ...) to leave
  the plain names to the parameters of the functions. The map \<^verbatim>\<open>sessions\<close> is an association list with one entry per key (lookup
  \<open>map_of\<close>, store \<open>AList.update\<close>); its order stands for the order in which \<^verbatim>\<open>range\<close>
  visits it. The mutex is not modelled: the functions below are what one caller
  executes when no other goroutine touches the manager in between.
\<close>

record sessionEntry =
  entry_session :: session
  entry_headers :: headers

record SessionManager =
  sm_client :: nat
  sm_transport :: Transport
  sessions :: "(string \<times> sessionEntry) list"

definition NewSessionManager :: "nat \<Rightarrow> Transport \<Rightarrow> SessionManager" where
  "NewSessionManager client transport =
     \<lparr>sm_client = client, sm_transport = transport, sessions = []\<rparr>"

text \<open>\<^verbatim>\<open>isSessionValid\<close>: the result, the world after the probe, and the calls made.\<close>

definition isSessionValid ::
  "'w env \<Rightarrow> Context \<Rightarrow> session option \<Rightarrow> 'w \<Rightarrow> bool \<times> 'w \<times> call list" where
  "isSessionValid env ctx session w =
     (case session of
        None \<Rightarrow> (False, w, [])
      | Some s \<Rightarrow>
          (let pingCtx = (if \<not> hasDeadline ctx then WithTimeout ctx (2 * Second) else ctx);
               (err, w') = session_Ping env pingCtx s w
           in case err of
                Some e \<Rightarrow> (False, w', [PingCall pingCtx s err])
              | None \<Rightarrow> (True, w', [PingCall pingCtx s err])))"

text \<open>\<^verbatim>\<open>wrapHTTPClient\<close> and \<^verbatim>\<open>wrapTransportWithHeaders\<close>.\<close>

definition wrapHTTPClient :: "Client option \<Rightarrow> headers \<Rightarrow> Client" where
  "wrapHTTPClient httpClient headers =
     (let httpClient =
            (case httpClient of
               None \<Rightarrow> \<lparr>Transport = None, CheckRedirect = None, Jar = None, Timeout = 0\<rparr>
             | Some c \<Rightarrow> c)
      in \<lparr>Transport = Some (HeaderTransport (Transport httpClient) headers),
          CheckRedirect = CheckRedirect httpClient,
          Jar = Jar httpClient,
          Timeout = Timeout httpClient\<rparr>)"

definition wrapTransportWithHeaders :: "SessionManager \<Rightarrow> headers \<Rightarrow> Transport" where
  "wrapTransportWithHeaders sm headers =
     (case sm_transport sm of
        SSEClientTransport endpoint httpClient \<Rightarrow>
          SSEClientTransport endpoint (Some (wrapHTTPClient httpClient headers))
      | StreamableClientTransport endpoint httpClient \<Rightarrow>
          StreamableClientTransport endpoint (Some (wrapHTTPClient httpClient headers))
      | OtherTransport n \<Rightarrow> sm_transport sm)"

text \<open>
  \<^verbatim>\<open>GetSession\<close> looks the key up twice, first under the read lock and again under the
  write lock; \<open>live_entry\<close> is that lookup followed by the liveness check, which the
  source writes out both times.
\<close>

definition live_entry ::
  "'w env \<Rightarrow> SessionManager \<Rightarrow> Context \<Rightarrow> string \<Rightarrow> 'w \<Rightarrow> session option \<times> 'w \<times> call list" where
  "live_entry env sm ctx key w =
     (case map_of (sessions sm) key of
        Some entry \<Rightarrow>
          (let (valid, w', log) = isSessionValid env ctx (Some (entry_session entry)) w
           in if valid then (Some (entry_session entry), w', log) else (None, w', log))
      | None \<Rightarrow> (None, w, []))"

definition GetSession ::
  "(string \<Rightarrow> string) \<Rightarrow> 'w env \<Rightarrow> SessionManager \<Rightarrow> Context \<Rightarrow> headers \<Rightarrow> 'w
     \<Rightarrow> (error + session) \<times> SessionManager \<times> 'w \<times> call list" where
  "GetSession q env sm ctx headers w =
     (let key = SessionManager_generateSessionKey q headers;
          (found, w1, log1) = live_entry env sm ctx key w
      in case found of
           Some s \<Rightarrow> (Inr s, sm, w1, log1)
         | None \<Rightarrow>
             (let (found', w2, log2) = live_entry env sm ctx key w1
              in case found' of
                   Some s \<Rightarrow> (Inr s, sm, w2, log1 @ log2)
                 | None \<Rightarrow>
                     (let wrappedTransport = wrapTransportWithHeaders sm headers;
                          (r, w3) = client_Connect env ctx wrappedTransport w2;
                          log3 = log1 @ log2 @ [ConnectCall ctx wrappedTransport r]
                      in case r of
                           Inl err \<Rightarrow>
                             (Inl (Errorf_w ''failed to create session: '' err), sm, w3, log3)
                         | Inr s \<Rightarrow>
                             (Inr s,
                              sm\<lparr>sessions :=
                                   AList.update key \<lparr>entry_session = s, entry_headers = headers\<rparr> (sessions sm)\<rparr>,
                              w3, log3))))"

text \<open>
  \<^verbatim>\<open>Close\<close>: the loop over the entries, collecting the errors, then the fresh map and the
  aggregate error.
\<close>

fun close_sessions ::
  "'w env \<Rightarrow> (string \<times> sessionEntry) list \<Rightarrow> error list \<Rightarrow> 'w \<Rightarrow> call list
     \<Rightarrow> error list \<times> 'w \<times> call list" where
  "close_sessions env [] errs w log = (errs, w, log)"
| "close_sessions env ((key, entry) # rest) errs w log =
     (let (err, w') = session_Close env (entry_session entry) w;
          errs' = (case err of Some e \<Rightarrow> errs @ [e] | None \<Rightarrow> errs)
      in close_sessions env rest errs' w' (log @ [CloseCall (entry_session entry) err]))"

definition Close ::
  "'w env \<Rightarrow> SessionManager \<Rightarrow> 'w \<Rightarrow> error option \<times> SessionManager \<times> 'w \<times> call list" where
  "Close env sm w =
     (let (errs, w', log) = close_sessions env (sessions sm) [] w [];
          sm' = sm\<lparr>sessions := []\<rparr>
      in if length errs > 0
         then (Some (Errorf_v ''errors closing sessions: '' errs), sm', w', log)
         else (None, sm', w', log))"

subsection \<open>Reading the log, and a world to run the manager in\<close>

text \<open>What a logged call closed, and with which failure.\<close>

fun closed_session :: "call \<Rightarrow> session option" where
  "closed_session (CloseCall s r) = Some s"
| "closed_session (ConnectCall ctx t r) = None"
| "closed_session (PingCall ctx s r) = None"

fun close_failure :: "call \<Rightarrow> error option" where
  "close_failure (CloseCall s r) = r"
| "close_failure (ConnectCall ctx t r) = None"
| "close_failure (PingCall ctx s r) = None"

fun is_connect :: "call \<Rightarrow> bool" where
  "is_connect (ConnectCall ctx t r) = True"
| "is_connect (PingCall ctx s r) = False"
| "is_connect (CloseCall s r) = False"

text \<open>
  A small world for concrete runs, in the manner of the in-memory transports of the
  repository's tests: sessions are numbered as they are connected, \<^verbatim>\<open>Connect\<close> fails
  while the server is down, a session answers \<^verbatim>\<open>Ping\<close> until it is closed, and closing
  a session a second time is an error.
\<close>

record world =
  server_up :: bool
  connected :: nat
  closed :: "session list"

definition test_env :: "world env" where
  "test_env =
     \<lparr>client_Connect = (\<lambda>ctx t w.
          if server_up w
          then (Inr (connected w), w\<lparr>connected := Suc (connected w)\<rparr>)
          else (Inl (SDKError ''connection refused''), w)),
      session_Ping = (\<lambda>ctx s w.
          if s \<in> set (closed w) then (Some (SDKError ''connection closed''), w) else (None, w)),
      session_Close = (\<lambda>s w.
          if s \<in> set (closed w) then (Some (SDKError ''connection closed''), w)
          else (None, w\<lparr>closed := s # closed w\<rparr>))\<rparr>"

section \<open>Properties of the key derivation\<close>

subsection \<open>Digests and their rendering\<close>

lemma nibble_hi: "unat (drop_bit 4 (v::byte)) = unat v div 16"
  by (simp add: unat_drop_bit_eq drop_bit_eq_div unat_div)

lemma nibble_lo: "unat ((v::byte) AND 0x0f) = unat v mod 16"
proof -
  have "(0x0f::byte) = mask 4" by (simp add: mask_eq_exp_minus_1)
  then have "unat (v AND 0x0f) = unat (take_bit 4 v)" by (simp add: take_bit_eq_mask)
  also have "\<dots> = take_bit 4 (unat v)" by (simp add: unsigned_take_bit_eq)
  finally show ?thesis by (simp add: take_bit_eq_mod)
qed

lemma unat_byte: "unat (v::byte) < 256"
  using unsigned_less[of v, where 'a=nat] by simp

lemma hextable_digits: "list_all (\<lambda>d. hextable ! d = hex_digit d) [0 ..< 16]"
  by code_simp

lemma hextable_digit: "d < 16 \<Longrightarrow> hextable ! d = hex_digit d"
  using hextable_digits by (simp add: list_all_iff)

lemma hex_EncodeToString_fixed: "hex_EncodeToString bs = hex_fixed_width bs"
proof -
  have "[hextable ! unat (drop_bit 4 v), hextable ! unat (v AND 0x0f)]
        = [hex_digit (unat v div 16), hex_digit (unat v mod 16)]" for v :: byte
    using unat_byte[of v] by (simp add: nibble_hi nibble_lo hextable_digit)
  then show ?thesis by (simp add: hex_EncodeToString_def hex_fixed_width_def)
qed

lemma Join_commas:
  "Join ps '','' = (case ps of [] \<Rightarrow> [] | p # rest \<Rightarrow> p @ concat (map (\<lambda>x. '','' @ x) rest))"
  by (induction ps "'',''" rule: Join.induct) simp_all

lemma sort_names: "distinct (map fst h) \<Longrightarrow> sort (map fst h) = map fst (sort_key fst h)"
  by (rule sorted_distinct_set_unique) (simp_all add: distinct_map)

lemma index_present: "distinct (map fst h) \<Longrightarrow> (k, v) \<in> set h \<Longrightarrow> index h k = v"
  by (simp add: index_def)

lemma pairs_ordered:
  assumes "distinct (map fst h)"
  shows "map (\<lambda>k. f k (index h k)) (sort (map fst h)) = map (\<lambda>(k, v). f k v) (sort_key fst h)"
proof -
  have "map (\<lambda>k. f k (index h k)) (map fst (sort_key fst h)) = map (\<lambda>(k, v). f k v) (sort_key fst h)"
    using assms by (auto simp add: index_present)
  then show ?thesis using assms by (simp add: sort_names)
qed

lemma length_word_bytes: "length (word_bytes w) = 4"
  by (simp add: word_bytes_def)

lemma length_md5_Sum: "length (md5_Sum s) = 16"
  by (simp add: md5_Sum_def length_word_bytes split: prod.splits)

lemma length_hex_EncodeToString: "length (hex_EncodeToString bs) = 2 * length bs"
  by (induction bs) (simp_all add: hex_EncodeToString_def)


lemma length_hash_key: "length (hex_EncodeToString (md5_Sum s)) = 32"
  by (simp add: length_hex_EncodeToString length_md5_Sum)

lemma hash_key_not_default: "hex_EncodeToString (md5_Sum s) \<noteq> ''default''"
  using length_hash_key[of s] by auto

lemma SessionManager_key_cases:
  "SessionManager_generateSessionKey q h =
     (if h = [] then ''default''
      else hex_EncodeToString (md5_Sum (''{'' @
             Join (map (\<lambda>k. q k @ '':'' @ q (index h k)) (sort (map fst h))) '','' @ ''}'')))"
  by (simp add: SessionManager_generateSessionKey_def Let_def)

lemma sessionManager_key_cases:
  "sessionManager_generateSessionKey q t h =
     (if headersAffectSession t then SessionManager_generateSessionKey q h else ''default'')"
  by (simp add: sessionManager_generateSessionKey_def SessionManager_generateSessionKey_def)

lemma SessionManager_key_default_iff:
  "(SessionManager_generateSessionKey q h = ''default'') = (h = [])"
  using hash_key_not_default by (simp add: SessionManager_key_cases)

lemma key_example:
  "SessionManager_generateSessionKey quote_printable [(''Authorization'', ''Bearer token123'')]
     = ''283a18675087dfde64660018f686bf5c''"
  by code_simp


subsection \<open>The two revisions of \<^verbatim>\<open>generateSessionKey\<close>\<close>

text \<open>
  Claim C1, as amended. When the transport is of a header-insensitive kind
  (\<^verbatim>\<open>headersAffectSession\<close> is false: any transport other than the SSE and the streamable
  HTTP client transports), the internal \<^verbatim>\<open>sessionManager.generateSessionKey\<close> returns
  \<^verbatim>\<open>"default"\<close> for every header map, whatever it holds. The exported
  \<^verbatim>\<open>SessionManager.generateSessionKey\<close> never looks at the transport: it returns
  \<^verbatim>\<open>"default"\<close> exactly when the header map is empty.
\<close>

theorem generateSessionKey_insensitive_default:
  assumes "\<not> headersAffectSession t"
  shows "sessionManager_generateSessionKey q t h = ''default'' \<and>
         (SessionManager_generateSessionKey q h = ''default'') = (h = [])"
  using assms by (simp add: sessionManager_key_cases SessionManager_key_default_iff)

theorem generateSessionKey_insensitive_default_witness:
  "\<not> headersAffectSession (OtherTransport 0) \<and>
   sessionManager_generateSessionKey quote_printable (OtherTransport 0)
     [(''Authorization'', ''Bearer token123'')] = ''default''"
  using generateSessionKey_insensitive_default [of "OtherTransport 0" quote_printable
      "[(''Authorization'', ''Bearer token123'')]"]
  by simp

text \<open>
  The claim as it was stated fails on the exported revision: a pool over an in-memory
  transport (header-insensitive) that is asked for the key of
  \<^verbatim>\<open>{"Authorization": "Bearer token123"}\<close> gets the MD5 key of
  \<^verbatim>\<open>{"Authorization":"Bearer token123"}\<close>, not \<^verbatim>\<open>"default"\<close>. The repository's
  \<^verbatim>\<open>TestGenerateSessionKey\<close> expects just that of \<^verbatim>\<open>NewSessionManager\<close> over
  in-memory transports.
\<close>

theorem generateSessionKey_exported_hashes_counterexample:
  "\<not> headersAffectSession (OtherTransport 0) \<and>
   SessionManager_generateSessionKey quote_printable [(''Authorization'', ''Bearer token123'')]
     = ''283a18675087dfde64660018f686bf5c'' \<and>
   SessionManager_generateSessionKey quote_printable [(''Authorization'', ''Bearer token123'')]
     \<noteq> ''default''"
  by (simp add: key_example)

text \<open>
  Claim C2. The key functions of the two revisions agree on every input where the
  transport is header-sensitive or the header map is empty. On a non-empty header map
  with a header-insensitive transport the internal one returns \<^verbatim>\<open>"default"\<close> and the
  exported one the rendering of a hash, and the two differ; they differ nowhere else.
\<close>

theorem generateSessionKey_revisions:
  "(headersAffectSession t \<or> h = [] \<longrightarrow>
      sessionManager_generateSessionKey q t h = SessionManager_generateSessionKey q h) \<and>
   (\<not> headersAffectSession t \<and> h \<noteq> [] \<longrightarrow>
      sessionManager_generateSessionKey q t h = ''default'' \<and>
      (\<exists>s. SessionManager_generateSessionKey q h = hex_EncodeToString (md5_Sum s)) \<and>
      sessionManager_generateSessionKey q t h \<noteq> SessionManager_generateSessionKey q h) \<and>
   (sessionManager_generateSessionKey q t h \<noteq> SessionManager_generateSessionKey q h)
      = (\<not> headersAffectSession t \<and> h \<noteq> [])"
proof -
  have agree: "sessionManager_generateSessionKey q t h = SessionManager_generateSessionKey q h"
    if "headersAffectSession t \<or> h = []"
    using that by (auto simp add: sessionManager_key_cases SessionManager_key_cases)
  have differ: "sessionManager_generateSessionKey q t h = ''default'' \<and>
      (\<exists>s. SessionManager_generateSessionKey q h = hex_EncodeToString (md5_Sum s)) \<and>
      sessionManager_generateSessionKey q t h \<noteq> SessionManager_generateSessionKey q h"
    if "\<not> headersAffectSession t \<and> h \<noteq> []"
  proof -
    from that have d: "sessionManager_generateSessionKey q t h = ''default''"
      by (simp add: sessionManager_key_cases)
    from that have "\<exists>s. SessionManager_generateSessionKey q h = hex_EncodeToString (md5_Sum s)"
      by (auto simp add: SessionManager_key_cases)
    moreover from that have "SessionManager_generateSessionKey q h \<noteq> ''default''"
      by (simp add: SessionManager_key_default_iff)
    ultimately show ?thesis using d by simp
  qed
  from agree differ show ?thesis by blast
qed

theorem generateSessionKey_revisions_witness:
  "headersAffectSession (StreamableClientTransport ''http://localhost/mcp'' None) \<and>
   sessionManager_generateSessionKey quote_printable
       (StreamableClientTransport ''http://localhost/mcp'' None)
       [(''Authorization'', ''Bearer token123'')]
     = SessionManager_generateSessionKey quote_printable [(''Authorization'', ''Bearer token123'')] \<and>
   \<not> headersAffectSession (OtherTransport 0) \<and>
   sessionManager_generateSessionKey quote_printable (OtherTransport 0)
       [(''Authorization'', ''Bearer token123'')] = ''default'' \<and>
   sessionManager_generateSessionKey quote_printable (OtherTransport 0)
       [(''Authorization'', ''Bearer token123'')]
     \<noteq> SessionManager_generateSessionKey quote_printable [(''Authorization'', ''Bearer token123'')]"
proof -
  have sensitive: "headersAffectSession (StreamableClientTransport ''http://localhost/mcp'' None)"
    and insensitive: "\<not> headersAffectSession (OtherTransport 0)"
    and nonempty: "[(''Authorization'', ''Bearer token123'')] \<noteq> []"
    by simp_all
  from sensitive insensitive nonempty
    generateSessionKey_revisions [of "StreamableClientTransport ''http://localhost/mcp'' None"
      "[(''Authorization'', ''Bearer token123'')]" quote_printable]
    generateSessionKey_revisions [of "OtherTransport 0"
      "[(''Authorization'', ''Bearer token123'')]" quote_printable]
  show ?thesis by blast
qed

subsection \<open>Order of the header entries\<close>

text \<open>
  Claim C5. Two header maps that hold the same name/value pairs get the same session
  key, in whatever order their entries are visited. Each list is a Go map, so no name
  occurs twice in it.
\<close>

theorem generateSessionKey_order_independent:
  assumes "well_formed h1" and "well_formed h2" and "set h1 = set h2"
  shows "SessionManager_generateSessionKey q h1 = SessionManager_generateSessionKey q h2"
proof -
  from assms have d: "distinct (map fst h1)" "distinct (map fst h2)"
    by (simp_all add: well_formed_def)
  have names: "sort (map fst h1) = sort (map fst h2)"
    using d assms(3) by (intro sorted_distinct_set_unique) simp_all
  have vals: "index h1 = index h2"
    using d assms(3) by (simp add: index_def fun_eq_iff map_of_inject_set[symmetric])
  have "(h1 = []) = (h2 = [])"
    using assms(3) by (metis set_empty)
  then show ?thesis
    by (simp add: SessionManager_key_cases names vals)
qed

theorem generateSessionKey_order_independent_witness:
  "well_formed [(''Authorization'', ''Bearer token''), (''X-API-Key'', ''key123'')] \<and>
   well_formed [(''X-API-Key'', ''key123''), (''Authorization'', ''Bearer token'')] \<and>
   set [(''Authorization'', ''Bearer token''), (''X-API-Key'', ''key123'')]
     = set [(''X-API-Key'', ''key123''), (''Authorization'', ''Bearer token'')] \<and>
   SessionManager_generateSessionKey quote_printable
       [(''Authorization'', ''Bearer token''), (''X-API-Key'', ''key123'')]
     = SessionManager_generateSessionKey quote_printable
       [(''X-API-Key'', ''key123''), (''Authorization'', ''Bearer token'')]"
proof -
  have wf1: "well_formed [(''Authorization'', ''Bearer token''), (''X-API-Key'', ''key123'')]"
    and wf2: "well_formed [(''X-API-Key'', ''key123''), (''Authorization'', ''Bearer token'')]"
    by (simp_all add: well_formed_def)
  have s: "set [(''Authorization'', ''Bearer token''), (''X-API-Key'', ''key123'')]
     = set [(''X-API-Key'', ''key123''), (''Authorization'', ''Bearer token'')]"
    by auto
  from wf1 wf2 s generateSessionKey_order_independent [OF wf1 wf2 s, of quote_printable]
  show ?thesis by blast
qed

subsection \<open>The reference definition\<close>

text \<open>
  Claim C6. The exported key function computes the reference definition
  \<open>Key_reference\<close>: \<^verbatim>\<open>"default"\<close> for a nil or empty header map; otherwise the header
  names sorted ascending byte-wise, the quoted \<^verbatim>\<open>"name":"value"\<close> pairs in that order,
  joined with commas inside braces, and the fixed-width hexadecimal rendering of the hash
  of that string.
\<close>

theorem generateSessionKey_refines_reference:
  assumes "well_formed h"
  shows "SessionManager_generateSessionKey q h = Key_reference q h"
proof (cases "h = []")
  case True
  then show ?thesis
    by (simp add: SessionManager_generateSessionKey_def Key_reference_def)
next
  case False
  from assms have d: "distinct (map fst h)" by (simp add: well_formed_def)
  have pairs: "map (\<lambda>k. q k @ '':'' @ q (index h k)) (sort (map fst h))
      = map (\<lambda>(name, val). q name @ '':'' @ q val) (sort_key fst h)"
    using pairs_ordered [OF d, of "\<lambda>k v. q k @ '':'' @ q v"] .
  have "SessionManager_generateSessionKey q h
      = hex_EncodeToString (md5_Sum (''{'' @
          Join (map (\<lambda>k. q k @ '':'' @ q (index h k)) (sort (map fst h))) '','' @ ''}''))"
    using False by (simp add: SessionManager_generateSessionKey_def Let_def)
  also have "\<dots> = Key_reference q h"
    using False unfolding pairs Key_reference_def Let_def in_braces_def Join_commas
      hex_EncodeToString_fixed by simp
  finally show ?thesis .
qed

theorem generateSessionKey_refines_reference_witness:
  "well_formed [(''X-API-Key'', ''key123''), (''Authorization'', ''Bearer token'')] \<and>
   SessionManager_generateSessionKey quote_printable
       [(''X-API-Key'', ''key123''), (''Authorization'', ''Bearer token'')]
     = Key_reference quote_printable
       [(''X-API-Key'', ''key123''), (''Authorization'', ''Bearer token'')]"
proof -
  have wf: "well_formed [(''X-API-Key'', ''key123''), (''Authorization'', ''Bearer token'')]"
    by (simp add: well_formed_def)
  from wf generateSessionKey_refines_reference [OF wf, of quote_printable]
  show ?thesis by blast
qed

subsection \<open>The range of the key derivation\<close>



section \<open>Properties of the session pool\<close>

subsection \<open>The paths through \<^verbatim>\<open>GetSession\<close>\<close>

lemma isSessionValid_log:
  "isSessionValid env ctx so w = (v, w', log) \<Longrightarrow> list_all (\<lambda>c. \<not> is_connect c) log"
  by (auto simp add: isSessionValid_def Let_def split: option.splits prod.splits)

lemma live_entry_log:
  "live_entry env sm ctx key w = (found, w', log) \<Longrightarrow> list_all (\<lambda>c. \<not> is_connect c) log"
  by (auto simp add: live_entry_def Let_def split: option.splits prod.splits if_splits
        dest: isSessionValid_log)

lemma live_entry_stored:
  "live_entry env sm ctx key w = (Some s, w', log) \<Longrightarrow>
     \<exists>entry. map_of (sessions sm) key = Some entry \<and> entry_session entry = s"
  by (auto simp add: live_entry_def Let_def split: option.splits prod.splits if_splits)


lemma GetSession_cases:
  assumes "GetSession q env sm ctx headers w = (r, sm', w', log)"
  obtains
    (reused) s where "r = Inr s" "sm' = sm" "list_all (\<lambda>c. \<not> is_connect c) log"
      "\<exists>entry. map_of (sessions sm) (SessionManager_generateSessionKey q headers) = Some entry
          \<and> entry_session entry = s"
  | (failed) err w2 pings where "r = Inl (Errorf_w ''failed to create session: '' err)" "sm' = sm"
      "client_Connect env ctx (wrapTransportWithHeaders sm headers) w2 = (Inl err, w')"
      "log = pings @ [ConnectCall ctx (wrapTransportWithHeaders sm headers) (Inl err)]"
      "list_all (\<lambda>c. \<not> is_connect c) pings"
  | (created) s w2 pings where "r = Inr s"
      "sm' = sm\<lparr>sessions := AList.update (SessionManager_generateSessionKey q headers)
                \<lparr>entry_session = s, entry_headers = headers\<rparr> (sessions sm)\<rparr>"
      "client_Connect env ctx (wrapTransportWithHeaders sm headers) w2 = (Inr s, w')"
      "log = pings @ [ConnectCall ctx (wrapTransportWithHeaders sm headers) (Inr s)]"
      "list_all (\<lambda>c. \<not> is_connect c) pings"
proof -
  let ?key = "SessionManager_generateSessionKey q headers"
  obtain f1 w1 l1 where e1: "live_entry env sm ctx ?key w = (f1, w1, l1)"
    by (cases "live_entry env sm ctx ?key w") auto
  obtain f2 w2 l2 where e2: "live_entry env sm ctx ?key w1 = (f2, w2, l2)"
    by (cases "live_entry env sm ctx ?key w1") auto
  obtain c w3 where e3: "client_Connect env ctx (wrapTransportWithHeaders sm headers) w2 = (c, w3)"
    by (cases "client_Connect env ctx (wrapTransportWithHeaders sm headers) w2") auto
  note n1 = live_entry_log [OF e1] and n2 = live_entry_log [OF e2]
  show thesis
  proof (cases f1)
    case (Some s)
    with assms e1 have "r = Inr s" "sm' = sm" "log = l1"
      by (auto simp add: GetSession_def)
    with n1 live_entry_stored [of env sm ctx ?key w s w1 l1] e1 Some show thesis
      by (intro reused) auto
  next
    case None
    note f1 = None
    show thesis
    proof (cases f2)
      case (Some s)
      with assms e1 e2 f1 have "r = Inr s" "sm' = sm" "log = l1 @ l2"
        by (auto simp add: GetSession_def)
      with n1 n2 live_entry_stored [of env sm ctx ?key w1 s w2 l2] e2 Some show thesis
        by (intro reused) auto
    next
      case None
      show thesis
      proof (cases c)
        case (Inl err)
        with assms e1 e2 e3 f1 None have "r = Inl (Errorf_w ''failed to create session: '' err)"
          "sm' = sm" "w' = w3"
          "log = (l1 @ l2) @ [ConnectCall ctx (wrapTransportWithHeaders sm headers) (Inl err)]"
          by (auto simp add: GetSession_def)
        with n1 n2 e3 Inl show thesis
          by (intro failed [of err w2 "l1 @ l2"]) auto
      next
        case (Inr s)
        with assms e1 e2 e3 f1 None have "r = Inr s"
          "sm' = sm\<lparr>sessions := AList.update ?key
                \<lparr>entry_session = s, entry_headers = headers\<rparr> (sessions sm)\<rparr>" "w' = w3"
          "log = (l1 @ l2) @ [ConnectCall ctx (wrapTransportWithHeaders sm headers) (Inr s)]"
          by (auto simp add: GetSession_def)
        with n1 n2 e3 Inr show thesis
          by (intro created [of s w2 "l1 @ l2"]) auto
      qed
    qed
  qed
qed

lemma GetSession_success_stored:
  assumes "GetSession q env sm ctx headers w = (Inr s, sm', w', log)"
  shows "\<exists>entry. map_of (sessions sm') (SessionManager_generateSessionKey q headers) = Some entry
           \<and> entry_session entry = s"
  using assms
proof (cases rule: GetSession_cases)
  case (reused s')
  then show ?thesis by auto
next
  case (failed err w2 pings)
  then show ?thesis by simp
next
  case (created s' w2 pings)
  then show ?thesis by (simp add: update_conv')
qed

lemma close_sessions_log:
  "close_sessions env es errs w log = (errs', w', log') \<Longrightarrow>
     \<exists>calls. log' = log @ calls \<and>
       map closed_session calls = map (\<lambda>(key, entry). Some (entry_session entry)) es \<and>
       errs' = errs @ List.map_filter close_failure calls"
proof (induction es arbitrary: errs w log)
  case Nil
  then show ?case by (simp add: List.map_filter_simps)
next
  case (Cons a es)
  obtain key entry where a: "a = (key, entry)" by (cases a)
  obtain err w1 where c: "session_Close env (entry_session entry) w = (err, w1)"
    by (cases "session_Close env (entry_session entry) w")
  let ?errs = "case err of Some e \<Rightarrow> errs @ [e] | None \<Rightarrow> errs"
  from Cons.prems a c
  have "close_sessions env es ?errs w1 (log @ [CloseCall (entry_session entry) err]) = (errs', w', log')"
    by simp
  from Cons.IH [OF this] obtain calls
    where l: "log' = (log @ [CloseCall (entry_session entry) err]) @ calls"
      and m: "map closed_session calls = map (\<lambda>(key, entry). Some (entry_session entry)) es"
      and e: "errs' = ?errs @ List.map_filter close_failure calls"
    by blast
  have "errs' = errs @ List.map_filter close_failure (CloseCall (entry_session entry) err # calls)"
    using e by (cases err) (simp_all add: List.map_filter_simps)
  with l m a show ?case
    by (intro exI [of _ "CloseCall (entry_session entry) err # calls"]) simp
qed

lemma GetSession_fresh:
  assumes "client_Connect env ctx (wrapTransportWithHeaders sm headers) w = (Inr s, w')"
      and "sessions sm = []"
  shows "GetSession q env sm ctx headers w
     = (Inr s,
        sm\<lparr>sessions := [(SessionManager_generateSessionKey q headers,
                          \<lparr>entry_session = s, entry_headers = headers\<rparr>)]\<rparr>,
        w', [ConnectCall ctx (wrapTransportWithHeaders sm headers) (Inr s)])"
  using assms by (simp add: GetSession_def live_entry_def)

subsection \<open>Failed establishment\<close>



subsection \<open>Reuse\<close>

text \<open>
  Claim C7. If a call of \<^verbatim>\<open>GetSession\<close> with a header map succeeds with a session, and
  that session's \<^verbatim>\<open>Ping\<close> then succeeds, a second call with the same header map returns
  the same session and leaves the pool as it is; the one call it makes to the SDK is
  that \<^verbatim>\<open>Ping\<close>, so no session is established again.
\<close>

theorem GetSession_reuses_live_session:
  assumes first: "GetSession q env sm ctx headers w = (Inr s, sm1, w1, log1)"
      and alive: "session_Ping env (if \<not> hasDeadline ctx' then WithTimeout ctx' (2 * Second) else ctx') s w1
                    = (None, w2)"
  shows "GetSession q env sm1 ctx' headers w1
           = (Inr s, sm1, w2,
              [PingCall (if \<not> hasDeadline ctx' then WithTimeout ctx' (2 * Second) else ctx') s None])"
proof -
  from GetSession_success_stored [OF first] obtain entry
    where "map_of (sessions sm1) (SessionManager_generateSessionKey q headers) = Some entry"
      and "entry_session entry = s"
    by blast
  with alive have "live_entry env sm1 ctx' (SessionManager_generateSessionKey q headers) w1
      = (Some s, w2,
         [PingCall (if \<not> hasDeadline ctx' then WithTimeout ctx' (2 * Second) else ctx') s None])"
    by (simp add: live_entry_def isSessionValid_def)
  then show ?thesis by (simp add: GetSession_def)
qed

theorem GetSession_reuses_live_session_witness:
  "GetSession quote_printable test_env (NewSessionManager 0 (OtherTransport 0)) Background
       [(''Authorization'', ''Bearer token123'')] \<lparr>server_up = True, connected = 0, closed = []\<rparr>
     = (Inr 0,
        \<lparr>sm_client = 0, sm_transport = OtherTransport 0,
         sessions = [(''283a18675087dfde64660018f686bf5c'',
            \<lparr>entry_session = 0, entry_headers = [(''Authorization'', ''Bearer token123'')]\<rparr>)]\<rparr>,
        \<lparr>server_up = True, connected = 1, closed = []\<rparr>,
        [ConnectCall Background (OtherTransport 0) (Inr 0)]) \<and>
   GetSession quote_printable test_env
       \<lparr>sm_client = 0, sm_transport = OtherTransport 0,
        sessions = [(''283a18675087dfde64660018f686bf5c'',
           \<lparr>entry_session = 0, entry_headers = [(''Authorization'', ''Bearer token123'')]\<rparr>)]\<rparr>
       Background [(''Authorization'', ''Bearer token123'')]
       \<lparr>server_up = True, connected = 1, closed = []\<rparr>
     = (Inr 0,
        \<lparr>sm_client = 0, sm_transport = OtherTransport 0,
         sessions = [(''283a18675087dfde64660018f686bf5c'',
            \<lparr>entry_session = 0, entry_headers = [(''Authorization'', ''Bearer token123'')]\<rparr>)]\<rparr>,
        \<lparr>server_up = True, connected = 1, closed = []\<rparr>,
        [PingCall (WithTimeout Background (2 * Second)) 0 None])"
proof -
  have first: "GetSession quote_printable test_env (NewSessionManager 0 (OtherTransport 0)) Background
       [(''Authorization'', ''Bearer token123'')] \<lparr>server_up = True, connected = 0, closed = []\<rparr>
     = (Inr 0,
        \<lparr>sm_client = 0, sm_transport = OtherTransport 0,
         sessions = [(''283a18675087dfde64660018f686bf5c'',
            \<lparr>entry_session = 0, entry_headers = [(''Authorization'', ''Bearer token123'')]\<rparr>)]\<rparr>,
        \<lparr>server_up = True, connected = 1, closed = []\<rparr>,
        [ConnectCall Background (OtherTransport 0) (Inr 0)])"
    by (simp add: GetSession_def live_entry_def key_example wrapTransportWithHeaders_def
          test_env_def NewSessionManager_def)
  have alive: "session_Ping test_env
       (if \<not> hasDeadline Background then WithTimeout Background (2 * Second) else Background) 0
       \<lparr>server_up = True, connected = 1, closed = []\<rparr>
     = (None, \<lparr>server_up = True, connected = 1, closed = []\<rparr>)"
    by (simp add: test_env_def)
  from GetSession_reuses_live_session [OF first alive]
  have "GetSession quote_printable test_env
       \<lparr>sm_client = 0, sm_transport = OtherTransport 0,
        sessions = [(''283a18675087dfde64660018f686bf5c'',
           \<lparr>entry_session = 0, entry_headers = [(''Authorization'', ''Bearer token123'')]\<rparr>)]\<rparr>
       Background [(''Authorization'', ''Bearer token123'')]
       \<lparr>server_up = True, connected = 1, closed = []\<rparr>
     = (Inr 0,
        \<lparr>sm_client = 0, sm_transport = OtherTransport 0,
         sessions = [(''283a18675087dfde64660018f686bf5c'',
            \<lparr>entry_session = 0, entry_headers = [(''Authorization'', ''Bearer token123'')]\<rparr>)]\<rparr>,
        \<lparr>server_up = True, connected = 1, closed = []\<rparr>,
        [PingCall (WithTimeout Background (2 * Second)) 0 None])"
    by simp
  with first show ?thesis by (rule conjI)
qed

subsection \<open>\<^verbatim>\<open>Close\<close>\<close>

text \<open>
  Claim C4. \<^verbatim>\<open>Close\<close> closes every stored session, one call each, whatever the earlier
  calls returned; it returns no error when none of them failed and otherwise one error
  that holds all the failures; the map of sessions is empty afterwards in either case,
  the manager being what \<^verbatim>\<open>NewSessionManager\<close> would build; and a \<^verbatim>\<open>GetSession\<close> that
  follows establishes a session, stores it and returns it whenever \<^verbatim>\<open>Connect\<close> succeeds.
\<close>

theorem Close_closes_all_and_empties:
  assumes "Close env sm w = (r, sm', w', log)"
  shows "map closed_session log = map (\<lambda>(key, entry). Some (entry_session entry)) (sessions sm) \<and>
         r = (if List.map_filter close_failure log = [] then None
              else Some (Errorf_v ''errors closing sessions: '' (List.map_filter close_failure log))) \<and>
         sessions sm' = [] \<and>
         sm' = NewSessionManager (sm_client sm) (sm_transport sm) \<and>
         (\<forall>q ctx headers s w''.
            client_Connect env ctx (wrapTransportWithHeaders sm' headers) w' = (Inr s, w'') \<longrightarrow>
            GetSession q env sm' ctx headers w'
              = (Inr s,
                 sm'\<lparr>sessions := [(SessionManager_generateSessionKey q headers,
                                    \<lparr>entry_session = s, entry_headers = headers\<rparr>)]\<rparr>,
                 w'', [ConnectCall ctx (wrapTransportWithHeaders sm' headers) (Inr s)]))"
proof -
  obtain errs w1 calls where c: "close_sessions env (sessions sm) [] w [] = (errs, w1, calls)"
    by (cases "close_sessions env (sessions sm) [] w []")
  from close_sessions_log [OF c]
  have m: "map closed_session calls = map (\<lambda>(key, entry). Some (entry_session entry)) (sessions sm)"
    and e: "errs = List.map_filter close_failure calls"
    by auto
  from assms c have res: "log = calls" "w' = w1" "sm' = sm\<lparr>sessions := []\<rparr>"
    "r = (if errs = [] then None else Some (Errorf_v ''errors closing sessions: '' errs))"
    by (auto simp add: Close_def Let_def split: if_splits)
  have fresh: "sessions sm' = []" using res by simp
  have new: "sm' = NewSessionManager (sm_client sm) (sm_transport sm)"
    using res by (simp add: NewSessionManager_def)
  have again: "\<forall>q ctx headers s w''.
      client_Connect env ctx (wrapTransportWithHeaders sm' headers) w' = (Inr s, w'') \<longrightarrow>
      GetSession q env sm' ctx headers w'
        = (Inr s,
           sm'\<lparr>sessions := [(SessionManager_generateSessionKey q headers,
                              \<lparr>entry_session = s, entry_headers = headers\<rparr>)]\<rparr>,
           w'', [ConnectCall ctx (wrapTransportWithHeaders sm' headers) (Inr s)])"
    by (intro allI impI GetSession_fresh fresh)
  have closed_all: "map closed_session log
      = map (\<lambda>(key, entry). Some (entry_session entry)) (sessions sm)"
    using m res by simp
  have aggregate: "r = (if List.map_filter close_failure log = [] then None
      else Some (Errorf_v ''errors closing sessions: '' (List.map_filter close_failure log)))"
    using e res by simp
  from closed_all aggregate fresh new again show ?thesis by blast
qed

theorem Close_closes_all_and_empties_witness:
  "Close test_env
       \<lparr>sm_client = 0, sm_transport = OtherTransport 0,
        sessions = [(''default'', \<lparr>entry_session = 0, entry_headers = []\<rparr>),
                    (''283a18675087dfde64660018f686bf5c'',
                     \<lparr>entry_session = 1,
                      entry_headers = [(''Authorization'', ''Bearer token123'')]\<rparr>)]\<rparr>
       \<lparr>server_up = True, connected = 2, closed = [0]\<rparr>
     = (Some (Errorf_v ''errors closing sessions: '' [SDKError ''connection closed'']),
        \<lparr>sm_client = 0, sm_transport = OtherTransport 0, sessions = []\<rparr>,
        \<lparr>server_up = True, connected = 2, closed = [1, 0]\<rparr>,
        [CloseCall 0 (Some (SDKError ''connection closed'')), CloseCall 1 None]) \<and>
   GetSession quote_printable test_env
       \<lparr>sm_client = 0, sm_transport = OtherTransport 0, sessions = []\<rparr>
       Background [] \<lparr>server_up = True, connected = 2, closed = [1, 0]\<rparr>
     = (Inr 2,
        \<lparr>sm_client = 0, sm_transport = OtherTransport 0,
         sessions = [(''default'', \<lparr>entry_session = 2, entry_headers = []\<rparr>)]\<rparr>,
        \<lparr>server_up = True, connected = 3, closed = [1, 0]\<rparr>,
        [ConnectCall Background (OtherTransport 0) (Inr 2)])"
proof -
  have run: "Close test_env
       \<lparr>sm_client = 0, sm_transport = OtherTransport 0,
        sessions = [(''default'', \<lparr>entry_session = 0, entry_headers = []\<rparr>),
                    (''283a18675087dfde64660018f686bf5c'',
                     \<lparr>entry_session = 1,
                      entry_headers = [(''Authorization'', ''Bearer token123'')]\<rparr>)]\<rparr>
       \<lparr>server_up = True, connected = 2, closed = [0]\<rparr>
     = (Some (Errorf_v ''errors closing sessions: '' [SDKError ''connection closed'']),
        \<lparr>sm_client = 0, sm_transport = OtherTransport 0, sessions = []\<rparr>,
        \<lparr>server_up = True, connected = 2, closed = [1, 0]\<rparr>,
        [CloseCall 0 (Some (SDKError ''connection closed'')), CloseCall 1 None])"
    by (simp add: Close_def test_env_def)
  have connect: "client_Connect test_env Background
       (wrapTransportWithHeaders
          \<lparr>sm_client = 0, sm_transport = OtherTransport 0, sessions = []\<rparr> [])
       \<lparr>server_up = True, connected = 2, closed = [1, 0]\<rparr>
     = (Inr 2, \<lparr>server_up = True, connected = 3, closed = [1, 0]\<rparr>)"
    by (simp add: test_env_def)
  from Close_closes_all_and_empties [OF run] connect
  have "GetSession quote_printable test_env
       \<lparr>sm_client = 0, sm_transport = OtherTransport 0, sessions = []\<rparr>
       Background [] \<lparr>server_up = True, connected = 2, closed = [1, 0]\<rparr>
     = (Inr 2,
        \<lparr>sm_client = 0, sm_transport = OtherTransport 0, sessions = []\<rparr>
          \<lparr>sessions := [(SessionManager_generateSessionKey quote_printable [],
                         \<lparr>entry_session = 2, entry_headers = []\<rparr>)]\<rparr>,
        \<lparr>server_up = True, connected = 3, closed = [1, 0]\<rparr>,
        [ConnectCall Background
          (wrapTransportWithHeaders
             \<lparr>sm_client = 0, sm_transport = OtherTransport 0, sessions = []\<rparr> [])
          (Inr 2)])"
    by blast
  then have "GetSession quote_printable test_env
       \<lparr>sm_client = 0, sm_transport = OtherTransport 0, sessions = []\<rparr>
       Background [] \<lparr>server_up = True, connected = 2, closed = [1, 0]\<rparr>
     = (Inr 2,
        \<lparr>sm_client = 0, sm_transport = OtherTransport 0,
         sessions = [(''default'', \<lparr>entry_session = 2, entry_headers = []\<rparr>)]\<rparr>,
        \<lparr>server_up = True, connected = 3, closed = [1, 0]\<rparr>,
        [ConnectCall Background (OtherTransport 0) (Inr 2)])"
    by (simp add: SessionManager_generateSessionKey_def wrapTransportWithHeaders_def)
  with run show ?thesis by (rule conjI)
qed

subsection \<open>Binding headers to the transport\<close>

text \<open>
  Claim C9. For a transport that is neither the SSE nor the streamable HTTP client
  transport, \<^verbatim>\<open>wrapTransportWithHeaders\<close> returns the manager's transport as it is. For
  those two it returns a transport of the same kind with the same endpoint whose HTTP
  client is the original one with \<^verbatim>\<open>Transport\<close> replaced by a \<^verbatim>\<open>headerTransport\<close> over
  the original \<^verbatim>\<open>Transport\<close> and the header map: \<^verbatim>\<open>CheckRedirect\<close>, \<^verbatim>\<open>Jar\<close> and
  \<^verbatim>\<open>Timeout\<close> are the original's. A \<^verbatim>\<open>nil\<close> client counts as the zero \<^verbatim>\<open>http.Client\<close>.
\<close>

theorem wrapTransportWithHeaders_frame:
  "(\<not> headersAffectSession (sm_transport sm) \<longrightarrow>
      wrapTransportWithHeaders sm headers = sm_transport sm) \<and>
   (sm_transport sm = SSEClientTransport endpoint httpClient \<longrightarrow>
      wrapTransportWithHeaders sm headers
        = SSEClientTransport endpoint (Some (wrapHTTPClient httpClient headers))) \<and>
   (sm_transport sm = StreamableClientTransport endpoint httpClient \<longrightarrow>
      wrapTransportWithHeaders sm headers
        = StreamableClientTransport endpoint (Some (wrapHTTPClient httpClient headers))) \<and>
   wrapHTTPClient (Some c) headers = c\<lparr>Transport := Some (HeaderTransport (Transport c) headers)\<rparr> \<and>
   CheckRedirect (wrapHTTPClient (Some c) headers) = CheckRedirect c \<and>
   Jar (wrapHTTPClient (Some c) headers) = Jar c \<and>
   Timeout (wrapHTTPClient (Some c) headers) = Timeout c \<and>
   wrapHTTPClient None headers
     = wrapHTTPClient (Some \<lparr>Transport = None, CheckRedirect = None, Jar = None, Timeout = 0\<rparr>) headers"
  by (cases "sm_transport sm") (simp_all add: wrapTransportWithHeaders_def wrapHTTPClient_def)

theorem wrapTransportWithHeaders_frame_witness:
  "\<not> headersAffectSession (OtherTransport 3) \<and>
   wrapTransportWithHeaders \<lparr>sm_client = 0, sm_transport = OtherTransport 3, sessions = []\<rparr>
       [(''Authorization'', ''Bearer t'')]
     = OtherTransport 3 \<and>
   wrapTransportWithHeaders
       \<lparr>sm_client = 0,
        sm_transport = SSEClientTransport ''http://localhost/sse''
          (Some \<lparr>Transport = Some (ForeignRoundTripper 5), CheckRedirect = Some 1, Jar = Some 2,
                 Timeout = 30\<rparr>),
        sessions = []\<rparr>
       [(''Authorization'', ''Bearer t'')]
     = SSEClientTransport ''http://localhost/sse''
         (Some \<lparr>Transport = Some (HeaderTransport (Some (ForeignRoundTripper 5))
                                [(''Authorization'', ''Bearer t'')]),
                CheckRedirect = Some 1, Jar = Some 2, Timeout = 30\<rparr>) \<and>
   wrapTransportWithHeaders
       \<lparr>sm_client = 0, sm_transport = StreamableClientTransport ''http://localhost/mcp'' None,
        sessions = []\<rparr>
       [(''Authorization'', ''Bearer t'')]
     = StreamableClientTransport ''http://localhost/mcp''
         (Some \<lparr>Transport = Some (HeaderTransport None [(''Authorization'', ''Bearer t'')]),
                CheckRedirect = None, Jar = None, Timeout = 0\<rparr>)"
  using
    wrapTransportWithHeaders_frame [of
      "\<lparr>sm_client = 0, sm_transport = OtherTransport 3, sessions = []\<rparr>"
      "[(''Authorization'', ''Bearer t'')]"]
    wrapTransportWithHeaders_frame [of
      "\<lparr>sm_client = 0,
        sm_transport = SSEClientTransport ''http://localhost/sse''
          (Some \<lparr>Transport = Some (ForeignRoundTripper 5), CheckRedirect = Some 1, Jar = Some 2,
                 Timeout = 30\<rparr>),
        sessions = []\<rparr>"
      "[(''Authorization'', ''Bearer t'')]" "''http://localhost/sse''"
      "Some \<lparr>Transport = Some (ForeignRoundTripper 5), CheckRedirect = Some 1, Jar = Some 2,
                 Timeout = 30\<rparr>"
      "\<lparr>Transport = Some (ForeignRoundTripper 5), CheckRedirect = Some 1, Jar = Some 2,
                 Timeout = 30\<rparr>"]
    wrapTransportWithHeaders_frame [of
      "\<lparr>sm_client = 0, sm_transport = StreamableClientTransport ''http://localhost/mcp'' None,
        sessions = []\<rparr>"
      "[(''Authorization'', ''Bearer t'')]" "''http://localhost/mcp''" None]
  by simp


end
